theory Spec2Isabelle
  imports Complex_Main "HOL-Library.Word"
begin

unbundle bit_operations_syntax

section \<open>JavaScript values used by the derivation engine\<close>

text \<open>
  A JavaScript string is a sequence of UTF-16 code units, a \<open>Uint8Array\<close> a sequence of
  bytes. Numbers that reach the engine as \<open>step\<close> are \<open>NaN\<close>, the two infinities or an
  integer (the callers pass game indices; fractional numbers are not represented); the
  decimal rendering of an integer is exact for every safe integer. The value computed by
  \<open>deriveGameRandom\<close> is kept as the exact rational it denotes; the double the engine
  returns is the one nearest to it. The resolvers only compare that value with 0.5 and
  take the floor of its product with 3 or 52, which come out the same on the double: the
  quotients by the prime 2147483647 and by 1000000 stay away from those thresholds by
  much more than a rounding error, or meet them exactly.
\<close>

type_synonym code_unit = "16 word"
type_synonym js_string = "code_unit list"
type_synonym byte = "8 word"

datatype js_number = NaN | PosInfinity | NegInfinity | Num int

datatype js_value =
    JUndefined
  | JNull
  | JBoolean bool
  | JNumber js_number
  | JString js_string

datatype js_error = Error | ReferenceError

text \<open>The code units of an ASCII literal of the source.\<close>

definition lit :: "string \<Rightarrow> js_string" where
  "lit s = map (\<lambda>c. of_nat (of_char c)) s"

subsection \<open>\<open>Number.prototype.toString\<close>\<close>

text \<open>The digits of a non-negative integer in a radix between 2 and 36.\<close>

definition digitChar :: "int \<Rightarrow> code_unit" where
  "digitChar d = (if d < 10 then 48 + word_of_int d else 87 + word_of_int d)"

function digits :: "int \<Rightarrow> int \<Rightarrow> js_string" where
  "digits radix n =
     (if radix < 2 \<or> n < radix then [digitChar n]
      else digits radix (n div radix) @ [digitChar (n mod radix)])"
  by pat_completeness auto
termination
  by (relation "measure (\<lambda>(radix, n). nat n)") (auto intro: int_div_less_self)

declare digits.simps [simp del]

definition intToString :: "int \<Rightarrow> int \<Rightarrow> js_string" where
  "intToString radix i = (if i < 0 then lit ''-'' @ digits radix (- i) else digits radix i)"

fun numberToString :: "js_number \<Rightarrow> js_string" where
  "numberToString NaN = lit ''NaN''"
| "numberToString PosInfinity = lit ''Infinity''"
| "numberToString NegInfinity = lit ''-Infinity''"
| "numberToString (Num i) = intToString 10 i"

subsection \<open>\<open>String.prototype.match\<close> with the pattern \<open>/.{1,2}/g\<close>\<close>

text \<open>
  Without the \<open>s\<close> flag the dot matches every code unit except the four line
  terminators. The greedy global match takes two code units where it can, one where the
  next is a line terminator or the end, and skips a line terminator at which no match
  starts. \<open>match\<close> returns \<open>null\<close> when there is no match at all.
\<close>

definition isLineTerminator :: "code_unit \<Rightarrow> bool" where
  "isLineTerminator c \<longleftrightarrow> c = 0x0A \<or> c = 0x0D \<or> c = 0x2028 \<or> c = 0x2029"

fun matchAll :: "js_string \<Rightarrow> js_string list" where
  "matchAll [] = []"
| "matchAll [c] = (if isLineTerminator c then [] else [[c]])"
| "matchAll (c # d # cs) =
     (if isLineTerminator c then matchAll (d # cs)
      else if isLineTerminator d then [c] # matchAll (d # cs)
      else [c, d] # matchAll cs)"

definition stringMatch :: "js_string \<Rightarrow> js_string list option" where
  "stringMatch s = (case matchAll s of [] \<Rightarrow> None | m # ms \<Rightarrow> Some (m # ms))"

subsection \<open>\<open>Number.parseInt(s, 16)\<close>\<close>

definition isWhiteSpace :: "code_unit \<Rightarrow> bool" where
  "isWhiteSpace c \<longleftrightarrow>
     c = 0x09 \<or> c = 0x0A \<or> c = 0x0B \<or> c = 0x0C \<or> c = 0x0D \<or> c = 0x20 \<or> c = 0xA0 \<or>
     c = 0x1680 \<or> (0x2000 \<le> c \<and> c \<le> 0x200A) \<or> c = 0x2028 \<or> c = 0x2029 \<or>
     c = 0x202F \<or> c = 0x205F \<or> c = 0x3000 \<or> c = 0xFEFF"

definition hexDigit :: "code_unit \<Rightarrow> int option" where
  "hexDigit c =
     (if 0x30 \<le> c \<and> c \<le> 0x39 then Some (uint c - 0x30)
      else if 0x61 \<le> c \<and> c \<le> 0x66 then Some (uint c - 0x61 + 10)
      else if 0x41 \<le> c \<and> c \<le> 0x46 then Some (uint c - 0x41 + 10)
      else None)"

definition isHexDigit :: "code_unit \<Rightarrow> bool" where
  "isHexDigit c \<longleftrightarrow> hexDigit c \<noteq> None"

definition hexValue :: "js_string \<Rightarrow> int" where
  "hexValue z = foldl (\<lambda>acc c. acc * 16 + (case hexDigit c of Some d \<Rightarrow> d | None \<Rightarrow> 0)) 0 z"

definition stripSign :: "js_string \<Rightarrow> int \<times> js_string" where
  "stripSign s =
     (case s of
        [] \<Rightarrow> (1, [])
      | c # r \<Rightarrow> if c = 0x2D then (- 1, r) else if c = 0x2B then (1, r) else (1, c # r))"

definition stripPrefix :: "js_string \<Rightarrow> js_string" where
  "stripPrefix s =
     (case s of
        a # b # r \<Rightarrow> if a = 0x30 \<and> (b = 0x78 \<or> b = 0x58) then r else s
      | _ \<Rightarrow> s)"

text \<open>\<open>None\<close> stands for the result \<open>NaN\<close>.\<close>

definition parseInt16 :: "js_string \<Rightarrow> int option" where
  "parseInt16 s =
     (let (sign, s1) = stripSign (dropWhile isWhiteSpace s);
          z = takeWhile isHexDigit (stripPrefix s1)
      in if z = [] then None else Some (sign * hexValue z))"

subsection \<open>\<open>TextEncoder.prototype.encode\<close>\<close>

definition isHighSurrogate :: "code_unit \<Rightarrow> bool" where
  "isHighSurrogate c \<longleftrightarrow> 0xD800 \<le> c \<and> c \<le> 0xDBFF"

definition isLowSurrogate :: "code_unit \<Rightarrow> bool" where
  "isLowSurrogate c \<longleftrightarrow> 0xDC00 \<le> c \<and> c \<le> 0xDFFF"

text \<open>Scalar values of a string; an unpaired surrogate is replaced by U+FFFD.\<close>

fun codePoints :: "js_string \<Rightarrow> int list" where
  "codePoints [] = []"
| "codePoints [c] = [if isHighSurrogate c \<or> isLowSurrogate c then 0xFFFD else uint c]"
| "codePoints (c # d # cs) =
     (if isHighSurrogate c \<and> isLowSurrogate d
        then (0x10000 + (uint c - 0xD800) * 0x400 + (uint d - 0xDC00)) # codePoints cs
      else if isHighSurrogate c \<or> isLowSurrogate c then 0xFFFD # codePoints (d # cs)
      else uint c # codePoints (d # cs))"

definition utf8 :: "int \<Rightarrow> byte list" where
  "utf8 cp =
     (if cp < 0x80 then [word_of_int cp]
      else if cp < 0x800 then [word_of_int (0xC0 + cp div 0x40), word_of_int (0x80 + cp mod 0x40)]
      else if cp < 0x10000 then
        [word_of_int (0xE0 + cp div 0x1000), word_of_int (0x80 + cp div 0x40 mod 0x40),
         word_of_int (0x80 + cp mod 0x40)]
      else
        [word_of_int (0xF0 + cp div 0x40000), word_of_int (0x80 + cp div 0x1000 mod 0x40),
         word_of_int (0x80 + cp div 0x40 mod 0x40), word_of_int (0x80 + cp mod 0x40)])"

definition utf8Encode :: "js_string \<Rightarrow> byte list" where
  "utf8Encode s = concat (map utf8 (codePoints s))"

subsection \<open>Signed 32-bit arithmetic and the remainder operator\<close>

text \<open>\<open>x | 0\<close> and the operands of \<open><<\<close> go through \<open>ToInt32\<close>: reduction modulo
  \<open>2^32\<close> into the signed range. \<open>%\<close> truncates: the result has the sign of the dividend.\<close>

definition toInt32 :: "int \<Rightarrow> int" where
  "toInt32 x = sint (word_of_int x :: 32 word)"

definition shiftLeft :: "int \<Rightarrow> nat \<Rightarrow> int" where
  "shiftLeft x n = toInt32 (toInt32 x * 2 ^ n)"

definition jsRem :: "int \<Rightarrow> int \<Rightarrow> int" where
  "jsRem a n = sgn a * (\<bar>a\<bar> mod \<bar>n\<bar>)"

section \<open>The derivation engine\<close>

text \<open>
  What \<open>deriveGameRandom\<close> reads from its surroundings: the clock (\<open>Date.now()\<close>, in
  milliseconds) and whether the global \<open>TextEncoder\<close> exists; \<open>new TextEncoder()\<close> raises
  a \<open>ReferenceError\<close> where it does not.
\<close>

record env =
  dateNow :: int
  textEncoder :: bool

definition encode :: "env \<Rightarrow> js_string \<Rightarrow> js_error + byte list" where
  "encode env s = (if textEncoder env then Inr (utf8Encode s) else Inl ReferenceError)"

text \<open>The accumulator update \<open>((hash << 5) - hash + b) | 0\<close>, shared by both paths.\<close>

definition mix :: "int \<Rightarrow> int \<Rightarrow> int" where
  "mix hash b = toInt32 (shiftLeft hash 5 - hash + b)"

text \<open>Input validation: the three reassignments at the head of the \<open>try\<close> block.\<close>

definition validSeedHex :: "env \<Rightarrow> js_value \<Rightarrow> js_string" where
  "validSeedHex env seedHex =
     (case seedHex of
        JString s \<Rightarrow>
          if s = [] then lit ''fallback-seed-'' @ intToString 16 (dateNow env) else s
      | _ \<Rightarrow> lit ''fallback-seed-'' @ intToString 16 (dateNow env))"

definition validContext :: "js_value \<Rightarrow> js_string" where
  "validContext context =
     (case context of
        JString s \<Rightarrow> if s = [] then lit ''default-context'' else s
      | _ \<Rightarrow> lit ''default-context'')"

definition validStep :: "js_value \<Rightarrow> js_number" where
  "validStep step =
     (case step of
        JNumber n \<Rightarrow> if n = NaN then Num 0 else n
      | _ \<Rightarrow> Num 0)"

text \<open>The inner \<open>try\<close>: the seed cut into pieces of at most two code units, each parsed as
  hexadecimal and stored into a \<open>Uint8Array\<close> (modulo 256); \<open>NaN\<close> is stored as 0.\<close>

definition hexByte :: "js_string \<Rightarrow> byte" where
  "hexByte byte = (case parseInt16 byte of None \<Rightarrow> 0 | Some parsed \<Rightarrow> word_of_int parsed)"

definition hexBytes :: "js_string \<Rightarrow> js_error + byte list" where
  "hexBytes seedHex =
     (case stringMatch seedHex of
        None \<Rightarrow> Inl Error
      | Some hexMatches \<Rightarrow> Inr (map hexByte hexMatches))"

text \<open>The inner \<open>try\<close> with its \<open>catch\<close>.\<close>

definition seedBytesOf :: "env \<Rightarrow> js_string \<Rightarrow> js_error + byte list" where
  "seedBytesOf env seedHex =
     (case hexBytes seedHex of
        Inr bytes \<Rightarrow> Inr bytes
      | Inl error \<Rightarrow>
          (case encode env seedHex of
             Inl e \<Rightarrow> Inl e
           | Inr bytes \<Rightarrow> Inr (take 32 bytes)))"

text \<open>\<open>contextBytes[i % contextBytes.length] || 0\<close>: an index into an empty array reads
  \<open>undefined\<close>, which \<open>|| 0\<close> turns into 0.\<close>

definition contextByteAt :: "byte list \<Rightarrow> nat \<Rightarrow> byte" where
  "contextByteAt contextBytes i =
     (if contextBytes = [] then 0 else contextBytes ! (i mod length contextBytes))"

definition hashLoop :: "byte list \<Rightarrow> byte list \<Rightarrow> int" where
  "hashLoop seedBytes contextBytes =
     fold (\<lambda>i hash. mix hash (uint (seedBytes ! i XOR contextByteAt contextBytes i)))
          [0 ..< min (length seedBytes) 32] 0"

definition normalize :: "int \<Rightarrow> rat" where
  "normalize hash =
     (let normalized = of_int \<bar>hash\<bar> / 2147483647
      in min (999999 / 1000000) (max (1 / 1000000) normalized))"

text \<open>The body of the outer \<open>try\<close> after validation.\<close>

definition mainPath :: "env \<Rightarrow> js_string \<Rightarrow> js_string \<Rightarrow> js_number \<Rightarrow> js_error + rat" where
  "mainPath env seedHex context step =
     (case seedBytesOf env seedHex of
        Inl e \<Rightarrow> Inl e
      | Inr seedBytes \<Rightarrow>
          (case encode env (context @ lit ''-'' @ numberToString step) of
             Inl e \<Rightarrow> Inl e
           | Inr contextBytes \<Rightarrow> Inr (normalize (hashLoop seedBytes contextBytes))))"

text \<open>The outer \<open>catch\<close>; it sees the variables as validation left them.\<close>

definition fallbackPath :: "js_string \<Rightarrow> js_string \<Rightarrow> js_number \<Rightarrow> rat" where
  "fallbackPath seedHex context step =
     (let fallbackSeed =
            foldl (\<lambda>acc char. mix acc (uint char)) 0 (seedHex @ context @ numberToString step)
      in of_int \<bar>jsRem fallbackSeed 1000000\<bar> / 1000000)"

definition deriveGameRandom :: "env \<Rightarrow> js_value \<Rightarrow> js_value \<Rightarrow> js_value \<Rightarrow> rat" where
  "deriveGameRandom env seedHex0 context0 step0 =
     (let seedHex = validSeedHex env seedHex0;
          context = validContext context0;
          step = validStep step0
      in case mainPath env seedHex context step of
           Inr value \<Rightarrow> value
         | Inl error \<Rightarrow> fallbackPath seedHex context step)"

section \<open>Game resolvers and their batch schedulers\<close>

text \<open>
  The engines are React components; what is modelled is the part that resolves games:
  the constant tables, the helper functions, \<open>processBatch\<close> with the counter
  \<open>processedRef.current\<close> passed in and returned, and the interval callback of
  \<open>startProcessing\<close>. A result object keeps the fields that describe the outcome
  (prefixed \<open>r_\<close>); its \<open>timestamp\<close> (the wall clock) and the six-decimal renderings of
  the derived values are left out. The surroundings \<open>env\<close> are those of one synchronous
  call; the clock in them matters only for an empty master seed. Reading an array
  outside its bounds yields \<open>undefined\<close>, written \<open>None\<close>; a table read at \<open>undefined\<close>
  yields \<open>undefined\<close> again (\<open>map_option\<close>).
\<close>

record game_session =
  session_id :: js_string
  session_count :: int

record game_result =
  r_gameIndex :: int
  r_winner :: js_string

definition arrayGet :: "'a list \<Rightarrow> int \<Rightarrow> 'a option" where
  "arrayGet xs i = (if 0 \<le> i \<and> i < int (length xs) then Some (xs ! nat i) else None)"

text \<open>The interval callback of \<open>startProcessing\<close>: stop once everything is processed, else
  run one batch. The state is the list of results produced so far and
  \<open>processedRef.current\<close>, which the rock-paper-scissors and high-card engines initialise
  from \<open>session.completed\<close> and the coin-flip grid from 0.\<close>

definition tick ::
  "(int \<Rightarrow> int \<Rightarrow> 'r list \<times> int) \<Rightarrow> int \<Rightarrow> int \<Rightarrow> 'r list \<times> int \<Rightarrow> 'r list \<times> int" where
  "tick processBatch count batchSize state =
     (case state of
        (done, processed) \<Rightarrow>
          if processed \<ge> count then (done, processed)
          else (case processBatch processed batchSize of
                  (results, processed') \<Rightarrow> (done @ results, processed')))"

subsection \<open>Rock-paper-scissors (\<open>enhanced-rps.tsx\<close>)\<close>

datatype move = Rock | Paper | Scissors

definition MOVES :: "move list" where
  "MOVES = [Rock, Paper, Scissors]"

fun MOVE_BEATS :: "move \<Rightarrow> move" where
  "MOVE_BEATS Rock = Scissors"
| "MOVE_BEATS Paper = Rock"
| "MOVE_BEATS Scissors = Paper"

record rps_result = game_result +
  r_player1Move :: "move option"
  r_player2Move :: "move option"

definition determineWinner ::
  "js_string \<Rightarrow> js_string \<Rightarrow> move option \<Rightarrow> move option \<Rightarrow> js_string" where
  "determineWinner player1 player2 move1 move2 =
     (if move1 = move2 then lit ''Tie''
      else if map_option MOVE_BEATS move1 = move2 then player1
      else player2)"

text \<open>One iteration of the loop of \<open>processBatch\<close>.\<close>

definition rpsGame ::
  "env \<Rightarrow> js_string \<Rightarrow> game_session \<Rightarrow> js_string \<Rightarrow> js_string \<Rightarrow> int \<Rightarrow> rps_result" where
  "rpsGame env masterSeed session player1 player2 gameIndex =
     (let p1Seed = deriveGameRandom env (JString masterSeed)
                     (JString (lit ''rps-p1-'' @ session_id session)) (JNumber (Num gameIndex));
          p2Seed = deriveGameRandom env (JString masterSeed)
                     (JString (lit ''rps-p2-'' @ session_id session)) (JNumber (Num gameIndex));
          player1Move = arrayGet MOVES \<lfloor>p1Seed * 3\<rfloor>;
          player2Move = arrayGet MOVES \<lfloor>p2Seed * 3\<rfloor>;
          winner = determineWinner player1 player2 player1Move player2Move
      in \<lparr>r_gameIndex = gameIndex, r_winner = winner,
          r_player1Move = player1Move, r_player2Move = player2Move\<rparr>)"

definition rpsProcessBatch ::
  "env \<Rightarrow> js_string \<Rightarrow> game_session \<Rightarrow> js_string \<Rightarrow> js_string \<Rightarrow> int \<Rightarrow> int
     \<Rightarrow> rps_result list \<times> int" where
  "rpsProcessBatch env masterSeed session player1 player2 processed batchSize =
     (let remaining = session_count session - processed;
          currentBatch = min batchSize remaining
      in if currentBatch \<le> 0 then ([], processed)
         else (map (\<lambda>i. rpsGame env masterSeed session player1 player2 (processed + i))
                   [0 .. currentBatch - 1],
               processed + currentBatch))"

text \<open>The results of \<open>n\<close> ticks of the interval, from \<open>processedRef.current = start\<close>.\<close>

definition rpsRun ::
  "env \<Rightarrow> js_string \<Rightarrow> game_session \<Rightarrow> js_string \<Rightarrow> js_string \<Rightarrow> int \<Rightarrow> nat \<Rightarrow> int
     \<Rightarrow> rps_result list" where
  "rpsRun env masterSeed session player1 player2 batchSize n start =
     fst ((tick (rpsProcessBatch env masterSeed session player1 player2)
                (session_count session) batchSize ^^ n) ([], start))"

subsection \<open>High card (\<open>high-card-game.tsx\<close>)\<close>

datatype suit = Spade | Heart | Diamond | Club

datatype rank = R2 | R3 | R4 | R5 | R6 | R7 | R8 | R9 | R10 | RJ | RQ | RK | RA

definition SUITS :: "suit list" where
  "SUITS = [Spade, Heart, Diamond, Club]"

definition RANKS :: "rank list" where
  "RANKS = [R2, R3, R4, R5, R6, R7, R8, R9, R10, RJ, RQ, RK, RA]"

fun RANK_VALUES :: "rank \<Rightarrow> int" where
  "RANK_VALUES R2 = 2"
| "RANK_VALUES R3 = 3"
| "RANK_VALUES R4 = 4"
| "RANK_VALUES R5 = 5"
| "RANK_VALUES R6 = 6"
| "RANK_VALUES R7 = 7"
| "RANK_VALUES R8 = 8"
| "RANK_VALUES R9 = 9"
| "RANK_VALUES R10 = 10"
| "RANK_VALUES RJ = 11"
| "RANK_VALUES RQ = 12"
| "RANK_VALUES RK = 13"
| "RANK_VALUES RA = 14"

fun suitOrder :: "suit \<Rightarrow> int" where
  "suitOrder Spade = 4"
| "suitOrder Heart = 3"
| "suitOrder Diamond = 2"
| "suitOrder Club = 1"

text \<open>\<open>a > b\<close> on numbers that may be \<open>undefined\<close>: false as soon as one of them is.\<close>

fun greater :: "int option \<Rightarrow> int option \<Rightarrow> bool" where
  "greater (Some a) (Some b) = (a > b)"
| "greater _ _ = False"

record playing_card =
  card_suit :: "suit option"
  card_rank :: "rank option"
  card_value :: "int option"

record card_result = game_result +
  r_player1Card :: playing_card
  r_player2Card :: playing_card

definition drawCard :: "rat \<Rightarrow> playing_card" where
  "drawCard seed =
     (let cardIndex = \<lfloor>seed * 52\<rfloor>;
          suitIndex = \<lfloor>(of_int cardIndex :: rat) / 13\<rfloor>;
          rankIndex = jsRem cardIndex 13
      in \<lparr>card_suit = arrayGet SUITS suitIndex,
          card_rank = arrayGet RANKS rankIndex,
          card_value = map_option RANK_VALUES (arrayGet RANKS rankIndex)\<rparr>)"

text \<open>The comparison inside the loop of \<open>processBatch\<close>.\<close>

definition cardWinner :: "js_string \<Rightarrow> js_string \<Rightarrow> playing_card \<Rightarrow> playing_card \<Rightarrow> js_string" where
  "cardWinner player1 player2 player1Card player2Card =
     (if greater (card_value player1Card) (card_value player2Card) then player1
      else if greater (card_value player2Card) (card_value player1Card) then player2
      else if greater (map_option suitOrder (card_suit player1Card))
                      (map_option suitOrder (card_suit player2Card)) then player1
      else if greater (map_option suitOrder (card_suit player2Card))
                      (map_option suitOrder (card_suit player1Card)) then player2
      else lit ''Tie'')"

definition cardGame ::
  "env \<Rightarrow> js_string \<Rightarrow> game_session \<Rightarrow> js_string \<Rightarrow> js_string \<Rightarrow> int \<Rightarrow> card_result" where
  "cardGame env masterSeed session player1 player2 gameIndex =
     (let p1Seed = deriveGameRandom env (JString masterSeed)
                     (JString (lit ''card-p1-'' @ session_id session)) (JNumber (Num gameIndex));
          p2Seed = deriveGameRandom env (JString masterSeed)
                     (JString (lit ''card-p2-'' @ session_id session)) (JNumber (Num gameIndex));
          player1Card = drawCard p1Seed;
          player2Card = drawCard p2Seed;
          winner = cardWinner player1 player2 player1Card player2Card
      in \<lparr>r_gameIndex = gameIndex, r_winner = winner,
          r_player1Card = player1Card, r_player2Card = player2Card\<rparr>)"

definition cardProcessBatch ::
  "env \<Rightarrow> js_string \<Rightarrow> game_session \<Rightarrow> js_string \<Rightarrow> js_string \<Rightarrow> int \<Rightarrow> int
     \<Rightarrow> card_result list \<times> int" where
  "cardProcessBatch env masterSeed session player1 player2 processed batchSize =
     (let remaining = session_count session - processed;
          currentBatch = min batchSize remaining
      in if currentBatch \<le> 0 then ([], processed)
         else (map (\<lambda>i. cardGame env masterSeed session player1 player2 (processed + i))
                   [0 .. currentBatch - 1],
               processed + currentBatch))"

definition cardRun ::
  "env \<Rightarrow> js_string \<Rightarrow> game_session \<Rightarrow> js_string \<Rightarrow> js_string \<Rightarrow> int \<Rightarrow> nat \<Rightarrow> int
     \<Rightarrow> card_result list" where
  "cardRun env masterSeed session player1 player2 batchSize n start =
     fst ((tick (cardProcessBatch env masterSeed session player1 player2)
                (session_count session) batchSize ^^ n) ([], start))"

subsection \<open>Coin flip (\<open>grid-coin-flip.tsx\<close>)\<close>

datatype face = Heads | Tails

record flip_result = game_result +
  r_result :: face

text \<open>The side assignment of a batch, derived at the index where the batch starts.\<close>

definition headsPlayerAt ::
  "env \<Rightarrow> js_string \<Rightarrow> game_session \<Rightarrow> js_string \<Rightarrow> js_string \<Rightarrow> int \<Rightarrow> js_string" where
  "headsPlayerAt env masterSeed session player1 player2 processed =
     (let assignmentSeed = deriveGameRandom env (JString masterSeed)
                             (JString (lit ''assignment-'' @ session_id session))
                             (JNumber (Num processed))
      in if assignmentSeed < 1 / 2 then player1 else player2)"

definition tailsPlayerOf :: "js_string \<Rightarrow> js_string \<Rightarrow> js_string \<Rightarrow> js_string" where
  "tailsPlayerOf player1 player2 headsPlayer = (if headsPlayer = player1 then player2 else player1)"

definition flipFace :: "env \<Rightarrow> js_string \<Rightarrow> game_session \<Rightarrow> int \<Rightarrow> face" where
  "flipFace env masterSeed session gameIndex =
     (let flipSeed = deriveGameRandom env (JString masterSeed)
                       (JString (lit ''flip-'' @ session_id session)) (JNumber (Num gameIndex))
      in if flipSeed < 1 / 2 then Heads else Tails)"

text \<open>One iteration of the loop of \<open>processBatch\<close>, under the batch's side assignment.\<close>

definition flipGame ::
  "env \<Rightarrow> js_string \<Rightarrow> game_session \<Rightarrow> js_string \<Rightarrow> js_string \<Rightarrow> int \<Rightarrow> flip_result" where
  "flipGame env masterSeed session headsPlayer tailsPlayer gameIndex =
     (let result = flipFace env masterSeed session gameIndex;
          winner = (if result = Heads then headsPlayer else tailsPlayer)
      in \<lparr>r_gameIndex = gameIndex, r_winner = winner, r_result = result\<rparr>)"

definition flipProcessBatch ::
  "env \<Rightarrow> js_string \<Rightarrow> game_session \<Rightarrow> js_string \<Rightarrow> js_string \<Rightarrow> int \<Rightarrow> int
     \<Rightarrow> flip_result list \<times> int" where
  "flipProcessBatch env masterSeed session player1 player2 processed batchSize =
     (let remaining = session_count session - processed;
          currentBatch = min batchSize remaining
      in if currentBatch \<le> 0 then ([], processed)
         else
           (let headsPlayer = headsPlayerAt env masterSeed session player1 player2 processed;
                tailsPlayer = tailsPlayerOf player1 player2 headsPlayer
            in (map (\<lambda>i. flipGame env masterSeed session headsPlayer tailsPlayer (processed + i))
                    [0 .. currentBatch - 1],
                processed + currentBatch)))"

definition flipRun ::
  "env \<Rightarrow> js_string \<Rightarrow> game_session \<Rightarrow> js_string \<Rightarrow> js_string \<Rightarrow> int \<Rightarrow> nat \<Rightarrow> int
     \<Rightarrow> flip_result list" where
  "flipRun env masterSeed session player1 player2 batchSize n start =
     fst ((tick (flipProcessBatch env masterSeed session player1 player2)
                (session_count session) batchSize ^^ n) ([], start))"

section \<open>The mixing algorithm as the specification words it\<close>

text \<open>
  A second description of the main path, written from the specification and not from
  the code: the seed is cut into successive pairs of code units, each pair is a byte
  (0 where it does not parse), the accumulator is a 32-bit machine word, and the context
  bytes are visited cyclically. To parse a pair is taken to mean what the only parser
  of the source, \<open>parseInt\<close> with radix 16, does with it.
\<close>

fun specPairs :: "js_string \<Rightarrow> js_string list" where
  "specPairs [] = []"
| "specPairs [c] = [[c]]"
| "specPairs (c # d # cs) = [c, d] # specPairs cs"

definition specSeedBytes :: "js_string \<Rightarrow> byte list" where
  "specSeedBytes seed =
     map (\<lambda>pair. case parseInt16 pair of None \<Rightarrow> 0 | Some v \<Rightarrow> word_of_int v) (specPairs seed)"

definition specMix :: "32 word \<Rightarrow> byte \<Rightarrow> 32 word" where
  "specMix hash b = push_bit 5 hash - hash + ucast b"

fun specFold :: "byte list \<Rightarrow> byte list \<Rightarrow> nat \<Rightarrow> 32 word \<Rightarrow> 32 word" where
  "specFold [] contextBytes i hash = hash"
| "specFold (seedByte # rest) contextBytes i hash =
     specFold rest contextBytes (Suc i)
       (specMix hash (seedByte XOR contextBytes ! (i mod length contextBytes)))"

definition specDerive :: "js_string \<Rightarrow> js_string \<Rightarrow> js_number \<Rightarrow> rat" where
  "specDerive seed context index =
     (let seedBytes = specSeedBytes seed;
          contextBytes = utf8Encode (context @ lit ''-'' @ numberToString index);
          hash = specFold (take (min 32 (length seedBytes)) seedBytes) contextBytes 0 0
      in min (999999 / 1000000) (max (1 / 1000000) (of_int \<bar>sint hash\<bar> / 2147483647)))"

section \<open>Sample inputs\<close>

text \<open>
  Inputs at which the properties below are evaluated: a runtime with a \<open>TextEncoder\<close> at
  three instants (one millisecond and 286 days apart), a runtime without one, the
  all-zero seed of 32 bytes, and sessions \<open>s1\<close> of two, three and four games.
\<close>

abbreviation runtimeA :: env where
  "runtimeA \<equiv> \<lparr>dateNow = 1762077600000, textEncoder = True\<rparr>"

abbreviation runtimeB :: env where
  "runtimeB \<equiv> \<lparr>dateNow = 1762077600001, textEncoder = True\<rparr>"

abbreviation runtimeC :: env where
  "runtimeC \<equiv> \<lparr>dateNow = 1786788000000, textEncoder = True\<rparr>"

abbreviation runtimeBare :: env where
  "runtimeBare \<equiv> \<lparr>dateNow = 1762077600000, textEncoder = False\<rparr>"

abbreviation zeroSeed :: js_string where
  "zeroSeed \<equiv> lit ''0000000000000000000000000000000000000000000000000000000000000000''"

abbreviation session2 :: game_session where
  "session2 \<equiv> \<lparr>session_id = lit ''s1'', session_count = 2\<rparr>"

abbreviation session3 :: game_session where
  "session3 \<equiv> \<lparr>session_id = lit ''s1'', session_count = 3\<rparr>"

abbreviation session4 :: game_session where
  "session4 \<equiv> \<lparr>session_id = lit ''s1'', session_count = 4\<rparr>"

section \<open>Properties of the derivation engine\<close>

subsection \<open>Range of the two paths\<close>

lemma normalize_range: "1 / 1000000 \<le> normalize hash \<and> normalize hash \<le> 999999 / 1000000"
  by (simp add: normalize_def Let_def min_def max_def)

lemma jsRem_abs: "\<bar>jsRem a n\<bar> = \<bar>a\<bar> mod \<bar>n\<bar>"
proof -
  have "0 \<le> \<bar>a\<bar> mod \<bar>n\<bar>"
    by (cases "n = 0") simp_all
  then show ?thesis
    by (cases "a = 0") (simp_all add: jsRem_def abs_mult abs_sgn_eq)
qed

lemma jsRem_nonneg: "0 \<le> a \<Longrightarrow> 0 < n \<Longrightarrow> jsRem a n = a mod n"
  by (cases "a = 0") (simp_all add: jsRem_def)

lemma fallbackPath_range:
  "0 \<le> fallbackPath seedHex context step \<and> fallbackPath seedHex context step \<le> 999999 / 1000000"
proof -
  define h where
    "h = foldl (\<lambda>acc char. mix acc (uint char)) 0 (seedHex @ context @ numberToString step)"
  have "\<bar>jsRem h 1000000\<bar> = \<bar>h\<bar> mod 1000000" by (simp add: jsRem_abs)
  moreover have "0 \<le> \<bar>h\<bar> mod 1000000" "\<bar>h\<bar> mod 1000000 \<le> 999999"
    using pos_mod_bound [of 1000000 "\<bar>h\<bar>"] by simp_all
  ultimately have "0 \<le> \<bar>jsRem h 1000000\<bar>" "\<bar>jsRem h 1000000\<bar> \<le> 999999" by simp_all
  then have "(0::rat) \<le> of_int \<bar>jsRem h 1000000\<bar> / 1000000"
    and "(of_int \<bar>jsRem h 1000000\<bar> :: rat) / 1000000 \<le> 999999 / 1000000"
    by (simp_all add: divide_le_cancel of_int_le_iff [symmetric] del: of_int_le_iff of_int_abs)
  then show ?thesis by (simp add: fallbackPath_def Let_def h_def)
qed

subsection \<open>Seed decoding\<close>

lemma matchAll_empty_iff: "matchAll s = [] \<longleftrightarrow> (\<forall>c\<in>set s. isLineTerminator c)"
  by (induction s rule: matchAll.induct) auto

lemma matchAll_specPairs: "\<forall>c\<in>set s. \<not> isLineTerminator c \<Longrightarrow> matchAll s = specPairs s"
  by (induction s rule: matchAll.induct) auto

lemma hexBytes_some: "matchAll s \<noteq> [] \<Longrightarrow> hexBytes s = Inr (map hexByte (matchAll s))"
  by (cases "matchAll s") (simp_all add: hexBytes_def stringMatch_def)

lemma hexBytes_none: "matchAll s = [] \<Longrightarrow> hexBytes s = Inl Error"
  by (simp add: hexBytes_def stringMatch_def)

lemma seedBytesOf_matches:
  "\<exists>c\<in>set s. \<not> isLineTerminator c \<Longrightarrow> seedBytesOf env s = Inr (map hexByte (matchAll s))"
  using matchAll_empty_iff [of s] by (auto simp: seedBytesOf_def hexBytes_some)

lemma seedBytesOf_utf8:
  "\<forall>c\<in>set s. isLineTerminator c \<Longrightarrow> textEncoder env \<Longrightarrow>
   seedBytesOf env s = Inr (take 32 (utf8Encode s))"
  using matchAll_empty_iff [of s] by (simp add: seedBytesOf_def hexBytes_none encode_def)

lemma seedBytesOf_Inr: "textEncoder env \<Longrightarrow> \<exists>bytes. seedBytesOf env s = Inr bytes"
  by (cases "\<forall>c\<in>set s. isLineTerminator c") (auto simp: seedBytesOf_utf8 seedBytesOf_matches)

text \<open>With a \<open>TextEncoder\<close> the body of the outer \<open>try\<close> completes; without one it raises.\<close>

lemma mainPath_Inr:
  assumes "textEncoder env"
  shows "\<exists>hash. mainPath env seedHex context step = Inr (normalize hash)"
proof -
  obtain bytes where "seedBytesOf env seedHex = Inr bytes"
    using seedBytesOf_Inr [OF assms] by blast
  then show ?thesis using assms by (auto simp: mainPath_def encode_def)
qed

lemma mainPath_Inl: "\<not> textEncoder env \<Longrightarrow> mainPath env seedHex context step = Inl ReferenceError"
  by (auto simp: mainPath_def seedBytesOf_def encode_def split: sum.splits)

lemma deriveGameRandom_main:
  assumes "textEncoder env"
  shows "1 / 1000000 \<le> deriveGameRandom env seedHex context step \<and>
         deriveGameRandom env seedHex context step \<le> 999999 / 1000000"
proof -
  obtain hash where
    "mainPath env (validSeedHex env seedHex) (validContext context) (validStep step) =
       Inr (normalize hash)"
    using mainPath_Inr [OF assms] by blast
  then show ?thesis using normalize_range [of hash] by (simp add: deriveGameRandom_def)
qed

lemma deriveGameRandom_range:
  "0 \<le> deriveGameRandom env seedHex context step \<and>
   deriveGameRandom env seedHex context step \<le> 999999 / 1000000"
proof (cases "textEncoder env")
  case True
  then show ?thesis using deriveGameRandom_main [of env seedHex "context" step] by simp
next
  case False
  then show ?thesis
    using fallbackPath_range [of "validSeedHex env seedHex" "validContext context" "validStep step"]
    by (simp add: deriveGameRandom_def mainPath_Inl)
qed

subsection \<open>Recovery from a malformed seed\<close>

text \<open>
  Claim C8, as amended. A malformed seed never makes the main path fail: with a
  \<open>TextEncoder\<close> the body of the \<open>try\<close> block returns a clamped value for every seed.
  The seed bytes are the pieces of one or two code units found by the pattern, each
  parsed as hexadecimal, a piece that does not parse giving the byte 0; the first 32
  UTF-8 bytes of the seed are taken only when the pattern finds no piece at all, which
  for a non-empty seed means that it consists of line terminators. An empty seed is
  first replaced by \<open>fallback-seed-\<close> followed by the clock in hexadecimal.
\<close>

theorem seed_recovery:
  "((\<exists>c\<in>set seed. \<not> isLineTerminator c) \<longrightarrow>
      seedBytesOf env seed = Inr (map hexByte (matchAll seed))) \<and>
   ((\<forall>c\<in>set seed. isLineTerminator c) \<and> textEncoder env \<longrightarrow>
      seedBytesOf env seed = Inr (take 32 (utf8Encode seed))) \<and>
   (parseInt16 piece = None \<longrightarrow> hexByte piece = 0) \<and>
   (textEncoder env \<longrightarrow>
      (\<exists>hash. mainPath env (validSeedHex env seedHex) ctx step = Inr (normalize hash))) \<and>
   validSeedHex env (JString []) = lit ''fallback-seed-'' @ intToString 16 (dateNow env)"
  using seedBytesOf_matches [of seed env] seedBytesOf_utf8 [of seed env]
    mainPath_Inr [of env "validSeedHex env seedHex" ctx step]
  by (simp add: hexByte_def validSeedHex_def)

lemma parse_zz: "parseInt16 (lit ''zz'') = None"
  by code_simp

theorem seed_recovery_witness:
  "seedBytesOf runtimeA (lit ''zz'') = Inr (map hexByte (matchAll (lit ''zz''))) \<and>
   seedBytesOf runtimeA [0x0A] = Inr (take 32 (utf8Encode [0x0A])) \<and>
   hexByte (lit ''zz'') = 0 \<and>
   (\<exists>hash. mainPath runtimeA (validSeedHex runtimeA (JString (lit ''zz''))) (lit ''flip-s1'') (Num 0) =
      Inr (normalize hash))"
proof -
  have a: "\<exists>c\<in>set (lit ''zz''). \<not> isLineTerminator c"
    by (simp add: lit_def isLineTerminator_def)
  have b: "(\<forall>c\<in>set [0x0A]. isLineTerminator c) \<and> textEncoder runtimeA"
    by (simp add: isLineTerminator_def)
  have c: "textEncoder runtimeA" by simp
  from seed_recovery [of "lit ''zz''" runtimeA "lit ''zz''" "JString (lit ''zz'')" "lit ''flip-s1''" "Num 0"]
    seed_recovery [of "[0x0A]" runtimeA "lit ''zz''" "JString (lit ''zz'')" "lit ''flip-s1''" "Num 0"]
    a b c parse_zz
  show ?thesis by blast
qed

text \<open>
  Claim C8 as stated fails for the seed \<open>zzzzzzzz\<close>, which is not hexadecimal: its seed
  bytes are four zero bytes and not its eight UTF-8 bytes, and the value returned is
  not the one the UTF-8 bytes would give.
\<close>

theorem seed_recovery_counterexample:
  "seedBytesOf runtimeA (lit ''zzzzzzzz'') \<noteq> Inr (take 32 (utf8Encode (lit ''zzzzzzzz''))) \<and>
   mainPath runtimeA (lit ''zzzzzzzz'') (lit ''flip-s1'') (Num 0) \<noteq>
     Inr (normalize (hashLoop (take 32 (utf8Encode (lit ''zzzzzzzz'')))
                              (utf8Encode (lit ''flip-s1'' @ lit ''-'' @ numberToString (Num 0)))))"
  by code_simp

subsection \<open>Determinism\<close>

lemma validSeedHex_string: "seed \<noteq> [] \<Longrightarrow> validSeedHex env (JString seed) = seed"
  by (simp add: validSeedHex_def)

lemma encode_clock: "encode (env\<lparr>dateNow := t\<rparr>) s = encode env s"
  by (simp add: encode_def)

lemma mainPath_clock:
  "mainPath (env\<lparr>dateNow := t\<rparr>) seedHex context step = mainPath env seedHex context step"
  by (simp add: mainPath_def seedBytesOf_def encode_clock cong: sum.case_cong)

lemma deriveGameRandom_clock:
  "seed \<noteq> [] \<Longrightarrow>
   deriveGameRandom (env\<lparr>dateNow := t\<rparr>) (JString seed) c i =
   deriveGameRandom env (JString seed) c i"
  by (simp add: deriveGameRandom_def validSeedHex_string mainPath_clock)

text \<open>
  Claim C1, as amended. For every non-empty seed string, well-formed or not, and every
  context and index, the value of \<open>deriveGameRandom\<close> does not depend on the clock: two
  calls with the same arguments return the same value whenever they are made. (For an
  empty or non-string seed the engine substitutes a seed built from \<open>Date.now()\<close>.)
\<close>

theorem derive_clock_independent:
  assumes "seed \<noteq> []"
  shows "deriveGameRandom (env\<lparr>dateNow := t\<rparr>) (JString seed) ctx step =
         deriveGameRandom env (JString seed) ctx step"
  using assms by (rule deriveGameRandom_clock)

theorem derive_clock_independent_witness:
  "lit ''00ff'' \<noteq> [] \<and>
   deriveGameRandom (runtimeA\<lparr>dateNow := 1762077600001\<rparr>)
     (JString (lit ''00ff'')) (JString (lit ''flip-s1'')) (JNumber (Num 0)) =
   deriveGameRandom runtimeA
     (JString (lit ''00ff'')) (JString (lit ''flip-s1'')) (JNumber (Num 0))"
  using derive_clock_independent [where seed = "lit ''00ff''"
        and env = runtimeA and t = 1762077600001
        and ctx = "JString (lit ''flip-s1'')" and step = "JNumber (Num 0)"]
  by (simp add: lit_def)

text \<open>
  Claim C1 as stated fails for the empty seed: one millisecond later the same call
  returns another value.
\<close>

theorem determinism_counterexample:
  "deriveGameRandom runtimeA
     (JString []) (JString (lit ''ctx'')) (JNumber (Num 3)) \<noteq>
   deriveGameRandom runtimeB
     (JString []) (JString (lit ''ctx'')) (JNumber (Num 3))"
  by code_simp

subsection \<open>Totality and range\<close>

text \<open>
  Claim C2. The function returns a value for every input, and an exception inside the
  \<open>try\<close> block is answered by the fallback hash; but the value the fallback returns
  need not be in range. Where \<open>TextEncoder\<close> is missing, the call below is answered by
  the fallback with exactly 0.
\<close>

theorem totality_fallback_zero:
  "mainPath runtimeBare (lit ''abc'') (lit ''flip-s1'') (Num 189952) = Inl ReferenceError \<and>
   deriveGameRandom runtimeBare
     (JString (lit ''abc'')) (JString (lit ''flip-s1'')) (JNumber (Num 189952)) = 0"
  by code_simp

text \<open>
  Claim C3. On the main path the value lies in [0.000001, 0.999999]
  (\<open>deriveGameRandom_main\<close>); the fallback path has no lower clamp and returns exactly 0
  for the all-zero seed, context \<open>flip-s1\<close> and index 52407.
\<close>

theorem range_fallback_zero:
  "fallbackPath zeroSeed (lit ''flip-s1'') (Num 52407) = 0 \<and>
   deriveGameRandom runtimeBare
     (JString zeroSeed) (JString (lit ''flip-s1'')) (JNumber (Num 52407)) = 0"
  by code_simp

subsection \<open>The mixing algorithm\<close>

lemma mix_word:
  fixes w :: "32 word" and b :: byte
  shows "mix (sint w) (uint b) = sint (specMix w b)"
proof -
  have "shiftLeft (sint w) 5 = sint (push_bit 5 w)"
    by (simp add: shiftLeft_def toInt32_def push_bit_eq_mult)
  then have "mix (sint w) (uint b) =
             sint (word_of_int (sint (push_bit 5 w) - sint w + uint b) :: 32 word)"
    by (simp add: mix_def toInt32_def)
  also have "(word_of_int (sint (push_bit 5 w) - sint w + uint b) :: 32 word) =
             push_bit 5 w - w + ucast b"
    by simp
  finally show ?thesis by (simp add: specMix_def)
qed

lemma fold_specFold:
  fixes w :: "32 word"
  assumes "k \<le> length xs"
  shows "fold (\<lambda>i hash. mix hash (uint (xs ! i XOR cb ! (i mod length cb))))
              [k ..< length xs] (sint w) =
         sint (specFold (drop k xs) cb k w)"
  using assms
proof (induction "length xs - k" arbitrary: k w)
  case 0
  then show ?case by simp
next
  case (Suc n)
  then have lt: "k < length xs" by simp
  have n: "n = length xs - Suc k" using Suc.hyps(2) by simp
  have "[k ..< length xs] = k # [Suc k ..< length xs]" using lt by (simp add: upt_conv_Cons)
  moreover have "drop k xs = xs ! k # drop (Suc k) xs" using lt by (simp add: Cons_nth_drop_Suc)
  ultimately show ?case
    using Suc.hyps(1) [OF n, of "specMix w (xs ! k XOR cb ! (k mod length cb))"] lt
    by (simp add: mix_word)
qed

lemma hashLoop_spec:
  assumes "cb \<noteq> []"
  shows "hashLoop sb cb = sint (specFold (take (min 32 (length sb)) sb) cb 0 0)"
proof -
  let ?xs = "take 32 sb"
  have len: "min (length sb) 32 = length ?xs" by simp
  have "hashLoop sb cb =
        fold (\<lambda>i hash. mix hash (uint (sb ! i XOR cb ! (i mod length cb)))) [0 ..< length ?xs] 0"
    using assms unfolding hashLoop_def len by (simp add: contextByteAt_def)
  also have "\<dots> =
        fold (\<lambda>i hash. mix hash (uint (?xs ! i XOR cb ! (i mod length cb)))) [0 ..< length ?xs] 0"
    by (rule fold_cong) simp_all
  also have "\<dots> = sint (specFold (drop 0 ?xs) cb 0 0)"
    using fold_specFold [of 0 ?xs cb 0] by simp
  finally show ?thesis by (simp add: min.commute take_all_iff min_def)
qed

lemma codePoints_nonempty: "s \<noteq> [] \<Longrightarrow> codePoints s \<noteq> []"
  by (induction s rule: codePoints.induct) auto

lemma utf8_nonempty: "utf8 cp \<noteq> []"
  by (simp add: utf8_def)

lemma utf8Encode_nonempty: "s \<noteq> [] \<Longrightarrow> utf8Encode s \<noteq> []"
  using codePoints_nonempty [of s]
  by (cases "codePoints s") (simp_all add: utf8Encode_def utf8_nonempty)

lemma contextBytes_nonempty: "utf8Encode (context @ lit ''-'' @ numberToString step) \<noteq> []"
  by (rule utf8Encode_nonempty) (simp add: lit_def)

text \<open>
  Claim C4, as amended. For every non-empty seed string that contains no line terminator
  (U+000A, U+000D, U+2028, U+2029), every context and every index, the main path (with
  \<open>TextEncoder\<close> present) returns the value of the reference definition: successive
  pairs decoded as hexadecimal bytes with 0 for a pair that does not parse, the 32-bit
  fold over at most 32 bytes against the cycled bytes of \<open>context-index\<close>, and the
  clamped quotient. The main path works on the validated arguments, so for a non-empty
  context and an index other than \<open>NaN\<close> this is the value of \<open>deriveGameRandom\<close>.
\<close>

theorem mainPath_refines_spec:
  assumes "seed \<noteq> []" "\<forall>c\<in>set seed. \<not> isLineTerminator c" "textEncoder env"
  shows "mainPath env seed ctx step = Inr (specDerive seed ctx step) \<and>
         (ctx \<noteq> [] \<and> step \<noteq> NaN \<longrightarrow>
            deriveGameRandom env (JString seed) (JString ctx) (JNumber step) =
              specDerive seed ctx step)"
proof -
  have "\<exists>c\<in>set seed. \<not> isLineTerminator c" using assms(1,2) by (cases seed) auto
  then have "seedBytesOf env seed = Inr (map hexByte (specPairs seed))"
    using seedBytesOf_matches [of seed env] matchAll_specPairs [OF assms(2)] by simp
  moreover have "map hexByte (specPairs seed) = specSeedBytes seed"
    by (simp add: specSeedBytes_def hexByte_def [abs_def])
  ultimately have sb: "seedBytesOf env seed = Inr (specSeedBytes seed)" by simp
  have m: "mainPath env seed c i = Inr (specDerive seed c i)" for c i
    using assms(3) sb hashLoop_spec [OF contextBytes_nonempty, of "specSeedBytes seed" c i]
    by (simp add: mainPath_def encode_def specDerive_def normalize_def Let_def)
  have "deriveGameRandom env (JString seed) (JString ctx) (JNumber step) = specDerive seed ctx step"
    if "ctx \<noteq> []" "step \<noteq> NaN"
    using that assms(1) m [of ctx step]
    by (simp add: deriveGameRandom_def validSeedHex_def validContext_def validStep_def)
  with m [of ctx step] show ?thesis by blast
qed

theorem mainPath_refines_spec_witness:
  "mainPath runtimeA (lit ''00ff'') (lit ''flip-s1'') (Num 0) =
     Inr (specDerive (lit ''00ff'') (lit ''flip-s1'') (Num 0)) \<and>
   deriveGameRandom runtimeA (JString (lit ''00ff'')) (JString (lit ''flip-s1'')) (JNumber (Num 0)) =
     specDerive (lit ''00ff'') (lit ''flip-s1'') (Num 0)"
proof -
  have h: "lit ''00ff'' \<noteq> []" "\<forall>c\<in>set (lit ''00ff''). \<not> isLineTerminator c"
    "textEncoder runtimeA"
    by (simp_all add: lit_def isLineTerminator_def)
  have g: "lit ''flip-s1'' \<noteq> [] \<and> Num 0 \<noteq> NaN" by (simp add: lit_def)
  from mainPath_refines_spec [OF h, of "lit ''flip-s1''" "Num 0"] g
  show ?thesis by blast
qed

text \<open>
  Claim C4 as stated fails for a seed with a line feed in it: the pattern does not
  pair the line feed with its neighbour but skips it, so the engine decodes
  \<open>ab, cd, 12, ef, 34\<close> where the reference decodes \<open>ab, LF c, d1, 2e, f3, 4\<close>.
\<close>

theorem mixing_counterexample:
  "mainPath runtimeA (lit ''ab'' @ [0x0A] @ lit ''cd12ef34'') (lit ''flip-s1'') (Num 0) \<noteq>
   Inr (specDerive (lit ''ab'' @ [0x0A] @ lit ''cd12ef34'') (lit ''flip-s1'') (Num 0))"
  by code_simp

subsection \<open>Coercion of the index and the context\<close>

lemma validStep_not_number: "(\<And>n. step \<noteq> JNumber n) \<Longrightarrow> validStep step = Num 0"
  by (cases step) (auto simp: validStep_def)

lemma validContext_not_string:
  "(\<And>s. context \<noteq> JString s) \<Longrightarrow> validContext context = lit ''default-context''"
  by (cases "context") (auto simp: validContext_def)

lemma derive_valid:
  "validContext c = validContext c' \<Longrightarrow> validStep i = validStep i' \<Longrightarrow>
   deriveGameRandom env seedHex c i = deriveGameRandom env seedHex c' i'"
  by (simp add: deriveGameRandom_def)

text \<open>
  Claim C9, as amended. A \<open>NaN\<close> index and an index that is not a number are replaced by
  0, and a context that is not a string, or is the empty string, by \<open>default-context\<close>:
  the call returns what it returns for the replaced argument. An integer index is used
  as it is, negative or not.
\<close>

theorem coercion:
  "deriveGameRandom env seedHex ctx (JNumber NaN) =
     deriveGameRandom env seedHex ctx (JNumber (Num 0)) \<and>
   ((\<forall>n. step \<noteq> JNumber n) \<longrightarrow>
     deriveGameRandom env seedHex ctx step =
     deriveGameRandom env seedHex ctx (JNumber (Num 0))) \<and>
   ((\<forall>s. ctx \<noteq> JString s) \<or> ctx = JString [] \<longrightarrow>
     deriveGameRandom env seedHex ctx step =
     deriveGameRandom env seedHex (JString (lit ''default-context'')) step) \<and>
   validStep (JNumber (Num i)) = Num i"
proof -
  have a: "deriveGameRandom env seedHex ctx (JNumber NaN) =
     deriveGameRandom env seedHex ctx (JNumber (Num 0))"
    by (rule derive_valid) (simp_all add: validStep_def)
  have b: "(\<forall>n. step \<noteq> JNumber n) \<longrightarrow>
     deriveGameRandom env seedHex ctx step =
     deriveGameRandom env seedHex ctx (JNumber (Num 0))"
    by (auto intro!: derive_valid simp: validStep_not_number) (simp add: validStep_def)
  have c: "(\<forall>s. ctx \<noteq> JString s) \<or> ctx = JString [] \<longrightarrow>
     deriveGameRandom env seedHex ctx step =
     deriveGameRandom env seedHex (JString (lit ''default-context'')) step"
    by (auto intro!: derive_valid simp: validContext_not_string)
       (simp_all add: validContext_def lit_def)
  have d: "validStep (JNumber (Num i)) = Num i" by (simp add: validStep_def)
  from a b c d show ?thesis by blast
qed

theorem coercion_witness:
  "deriveGameRandom runtimeA (JString (lit ''00ff'')) JNull JUndefined =
     deriveGameRandom runtimeA (JString (lit ''00ff'')) JNull (JNumber (Num 0)) \<and>
   deriveGameRandom runtimeA (JString (lit ''00ff'')) JNull JUndefined =
     deriveGameRandom runtimeA (JString (lit ''00ff'')) (JString (lit ''default-context'')) JUndefined"
  using coercion [where env = runtimeA and seedHex = "JString (lit ''00ff'')" and ctx = JNull
        and step = JUndefined and i = 0]
  by (intro conjI) (blast, blast)

text \<open>
  Claim C9 as stated fails for a negative index: index \<open>-1\<close> is rendered into the context
  bytes as \<open>a--1\<close> and does not give the value of index 0.
\<close>

theorem coercion_counterexample:
  "deriveGameRandom runtimeA
     (JString (lit ''000000'')) (JString (lit ''a'')) (JNumber (Num (- 1))) \<noteq>
   deriveGameRandom runtimeA
     (JString (lit ''000000'')) (JString (lit ''a'')) (JNumber (Num 0))"
  by code_simp

section \<open>Properties of the resolvers\<close>

lemma floor_times_bounds:
  fixes v :: rat
  assumes "0 \<le> v" "v \<le> 999999 / 1000000" "0 < n"
  shows "0 \<le> \<lfloor>v * of_int n\<rfloor> \<and> \<lfloor>v * of_int n\<rfloor> \<le> n - 1"
proof -
  have "0 \<le> v * of_int n" using assms by simp
  then have lo: "0 \<le> \<lfloor>v * of_int n\<rfloor>" by simp
  have "v < 1" using assms(2) by simp
  then have "v * of_int n < 1 * of_int n"
    using assms(3) by (intro mult_strict_right_mono) simp_all
  then have "\<lfloor>v * of_int n\<rfloor> < n" by (simp add: floor_less_iff)
  with lo show ?thesis by simp
qed

lemma arrayGet_Some: "0 \<le> i \<Longrightarrow> i < int (length xs) \<Longrightarrow> arrayGet xs i = Some (xs ! nat i)"
  by (simp add: arrayGet_def)

lemma drawCard_index:
  assumes "\<lfloor>seed * 52\<rfloor> = c" "0 \<le> c" "c < 52"
  shows "drawCard seed =
           \<lparr>card_suit = Some (SUITS ! nat (c div 13)),
            card_rank = Some (RANKS ! nat (c mod 13)),
            card_value = Some (RANK_VALUES (RANKS ! nat (c mod 13)))\<rparr>"
proof -
  have s: "\<lfloor>(of_int c :: rat) / 13\<rfloor> = c div 13"
    using floor_divide_of_int_eq [of c 13, where ?'a = rat] by simp
  have "0 \<le> c div 13" "c div 13 < 4" using assms(2,3) by simp_all
  then have a: "arrayGet SUITS (c div 13) = Some (SUITS ! nat (c div 13))"
    by (intro arrayGet_Some) (simp_all add: SUITS_def)
  have "0 \<le> c mod 13" "c mod 13 < 13" by simp_all
  then have b: "arrayGet RANKS (c mod 13) = Some (RANKS ! nat (c mod 13))"
    by (intro arrayGet_Some) (simp_all add: RANKS_def)
  show ?thesis
    using assms a b s by (simp add: drawCard_def Let_def jsRem_nonneg)
qed

lemma drawCard_defined:
  fixes v :: rat
  assumes "0 \<le> v" "v \<le> 999999 / 1000000"
  shows "card_suit (drawCard v) \<noteq> None \<and> card_rank (drawCard v) \<noteq> None \<and>
         card_value (drawCard v) \<noteq> None"
proof -
  have "0 \<le> \<lfloor>v * 52\<rfloor> \<and> \<lfloor>v * 52\<rfloor> \<le> 52 - 1"
    using floor_times_bounds [OF assms, of 52] by simp
  then have "0 \<le> \<lfloor>v * 52\<rfloor>" "\<lfloor>v * 52\<rfloor> < 52" by simp_all
  from drawCard_index [OF refl this] show ?thesis by simp
qed

lemma move_defined:
  fixes v :: rat
  assumes "0 \<le> v" "v \<le> 999999 / 1000000"
  shows "arrayGet MOVES \<lfloor>v * 3\<rfloor> \<noteq> None"
proof -
  have "0 \<le> \<lfloor>v * 3\<rfloor> \<and> \<lfloor>v * 3\<rfloor> \<le> 3 - 1"
    using floor_times_bounds [OF assms, of 3] by simp
  then show ?thesis by (simp add: arrayGet_def MOVES_def)
qed

text \<open>
  Claim C10. Whatever its arguments and surroundings, the value \<open>v\<close> of
  \<open>deriveGameRandom\<close> gives \<open>floor (v * 3)\<close> in 0..2 and \<open>floor (v * 52)\<close> in 0..51, so
  the move of either player in a rock-paper-scissors game and the suit, rank and value
  of either card in a high-card game are never \<open>undefined\<close>.
\<close>

theorem lookups_in_bounds:
  "0 \<le> \<lfloor>deriveGameRandom env seedHex ctx step * 3\<rfloor> \<and>
   \<lfloor>deriveGameRandom env seedHex ctx step * 3\<rfloor> \<le> 2 \<and>
   0 \<le> \<lfloor>deriveGameRandom env seedHex ctx step * 52\<rfloor> \<and>
   \<lfloor>deriveGameRandom env seedHex ctx step * 52\<rfloor> \<le> 51 \<and>
   r_player1Move (rpsGame env masterSeed session player1 player2 gameIndex) \<noteq> None \<and>
   r_player2Move (rpsGame env masterSeed session player1 player2 gameIndex) \<noteq> None \<and>
   card_suit (r_player1Card (cardGame env masterSeed session player1 player2 gameIndex)) \<noteq> None \<and>
   card_rank (r_player1Card (cardGame env masterSeed session player1 player2 gameIndex)) \<noteq> None \<and>
   card_value (r_player1Card (cardGame env masterSeed session player1 player2 gameIndex)) \<noteq> None \<and>
   card_suit (r_player2Card (cardGame env masterSeed session player1 player2 gameIndex)) \<noteq> None \<and>
   card_rank (r_player2Card (cardGame env masterSeed session player1 player2 gameIndex)) \<noteq> None \<and>
   card_value (r_player2Card (cardGame env masterSeed session player1 player2 gameIndex)) \<noteq> None"
proof -
  have lo: "0 \<le> deriveGameRandom e s c i"
    and hi: "deriveGameRandom e s c i \<le> 999999 / 1000000" for e s c i
    using deriveGameRandom_range [of e s c i] by simp_all
  have a: "0 \<le> \<lfloor>deriveGameRandom env seedHex ctx step * 3\<rfloor> \<and>
        \<lfloor>deriveGameRandom env seedHex ctx step * 3\<rfloor> \<le> 2"
    using floor_times_bounds [OF lo hi, of 3 env seedHex ctx step] by simp
  have b: "0 \<le> \<lfloor>deriveGameRandom env seedHex ctx step * 52\<rfloor> \<and>
        \<lfloor>deriveGameRandom env seedHex ctx step * 52\<rfloor> \<le> 51"
    using floor_times_bounds [OF lo hi, of 52 env seedHex ctx step] by simp
  have c: "r_player1Move (rpsGame env masterSeed session player1 player2 gameIndex) \<noteq> None"
    "r_player2Move (rpsGame env masterSeed session player1 player2 gameIndex) \<noteq> None"
    using move_defined [OF lo hi] by (simp_all add: rpsGame_def Let_def)
  have d:
    "card_suit (r_player1Card (cardGame env masterSeed session player1 player2 gameIndex)) \<noteq> None"
    "card_rank (r_player1Card (cardGame env masterSeed session player1 player2 gameIndex)) \<noteq> None"
    "card_value (r_player1Card (cardGame env masterSeed session player1 player2 gameIndex)) \<noteq> None"
    "card_suit (r_player2Card (cardGame env masterSeed session player1 player2 gameIndex)) \<noteq> None"
    "card_rank (r_player2Card (cardGame env masterSeed session player1 player2 gameIndex)) \<noteq> None"
    "card_value (r_player2Card (cardGame env masterSeed session player1 player2 gameIndex)) \<noteq> None"
    using drawCard_defined [OF lo hi] by (simp_all add: cardGame_def Let_def)
  from a b c d show ?thesis by blast
qed

subsection \<open>Rock-paper-scissors\<close>

lemma determineWinner_table:
  "determineWinner player1 player2 (Some m1) (Some m2) =
     (if m1 = m2 then lit ''Tie''
      else if (m1 = Rock \<and> m2 = Scissors) \<or> (m1 = Scissors \<and> m2 = Paper) \<or>
              (m1 = Paper \<and> m2 = Rock) then player1
      else player2)"
  by (cases m1; cases m2) (simp_all add: determineWinner_def)

lemma derive_move:
  "arrayGet MOVES \<lfloor>deriveGameRandom env s c i * 3\<rfloor> =
     Some ([Rock, Paper, Scissors] ! nat \<lfloor>deriveGameRandom env s c i * 3\<rfloor>)"
proof -
  have "0 \<le> \<lfloor>deriveGameRandom env s c i * 3\<rfloor> \<and> \<lfloor>deriveGameRandom env s c i * 3\<rfloor> \<le> 3 - 1"
    using floor_times_bounds [of "deriveGameRandom env s c i" 3] deriveGameRandom_range [of env s c i]
    by simp
  then show ?thesis by (simp add: arrayGet_def MOVES_def)
qed

text \<open>
  Claim C7. In every game each player's move is the entry of
  \<open>[rock, paper, scissors]\<close> at index \<open>floor (v * 3)\<close> of that player's own derived
  value; equal moves give \<open>Tie\<close>; otherwise player 1 wins exactly with rock against
  scissors, scissors against paper or paper against rock, and player 2 wins the rest.
\<close>

theorem rps_rules:
  "let v1 = deriveGameRandom env (JString masterSeed)
              (JString (lit ''rps-p1-'' @ session_id session)) (JNumber (Num gameIndex));
       v2 = deriveGameRandom env (JString masterSeed)
              (JString (lit ''rps-p2-'' @ session_id session)) (JNumber (Num gameIndex));
       m1 = [Rock, Paper, Scissors] ! nat \<lfloor>v1 * 3\<rfloor>;
       m2 = [Rock, Paper, Scissors] ! nat \<lfloor>v2 * 3\<rfloor>;
       g = rpsGame env masterSeed session player1 player2 gameIndex
   in r_player1Move g = Some m1 \<and> r_player2Move g = Some m2 \<and>
      r_winner g =
        (if m1 = m2 then lit ''Tie''
         else if (m1 = Rock \<and> m2 = Scissors) \<or> (m1 = Scissors \<and> m2 = Paper) \<or>
                 (m1 = Paper \<and> m2 = Rock) then player1
         else player2)"
  unfolding Let_def rpsGame_def
  by (simp only: derive_move determineWinner_table rps_result.simps game_result.simps simp_thms)

subsection \<open>High card\<close>

lemma derive_card:
  "drawCard (deriveGameRandom env s c i) =
     \<lparr>card_suit = Some ([Spade, Heart, Diamond, Club] ! nat (\<lfloor>deriveGameRandom env s c i * 52\<rfloor> div 13)),
      card_rank = Some ([R2, R3, R4, R5, R6, R7, R8, R9, R10, RJ, RQ, RK, RA] !
                        nat (\<lfloor>deriveGameRandom env s c i * 52\<rfloor> mod 13)),
      card_value = Some (RANK_VALUES ([R2, R3, R4, R5, R6, R7, R8, R9, R10, RJ, RQ, RK, RA] !
                        nat (\<lfloor>deriveGameRandom env s c i * 52\<rfloor> mod 13)))\<rparr>"
proof -
  have "0 \<le> \<lfloor>deriveGameRandom env s c i * 52\<rfloor> \<and> \<lfloor>deriveGameRandom env s c i * 52\<rfloor> \<le> 52 - 1"
    using floor_times_bounds [of "deriveGameRandom env s c i" 52] deriveGameRandom_range [of env s c i]
    by simp
  then have "0 \<le> \<lfloor>deriveGameRandom env s c i * 52\<rfloor>" "\<lfloor>deriveGameRandom env s c i * 52\<rfloor> < 52"
    by simp_all
  from drawCard_index [OF refl this] show ?thesis by (simp add: SUITS_def RANKS_def)
qed

lemma RANK_VALUES_inj: "RANK_VALUES r1 = RANK_VALUES r2 \<longleftrightarrow> r1 = r2"
  by (cases r1; cases r2) simp_all

lemma suitOrder_inj: "suitOrder s1 = suitOrder s2 \<longleftrightarrow> s1 = s2"
  by (cases s1; cases s2) simp_all

lemma cardWinner_table:
  "cardWinner player1 player2
     \<lparr>card_suit = Some s1, card_rank = Some r1, card_value = Some (RANK_VALUES r1)\<rparr>
     \<lparr>card_suit = Some s2, card_rank = Some r2, card_value = Some (RANK_VALUES r2)\<rparr> =
   (if RANK_VALUES r1 > RANK_VALUES r2 then player1
    else if RANK_VALUES r2 > RANK_VALUES r1 then player2
    else if suitOrder s1 > suitOrder s2 then player1
    else if suitOrder s2 > suitOrder s1 then player2
    else lit ''Tie'')"
  by (simp add: cardWinner_def)

lemma cardWinner_tie_iff:
  assumes "player1 \<noteq> lit ''Tie''" "player2 \<noteq> lit ''Tie''"
  shows "cardWinner player1 player2
     \<lparr>card_suit = Some s1, card_rank = Some r1, card_value = Some (RANK_VALUES r1)\<rparr>
     \<lparr>card_suit = Some s2, card_rank = Some r2, card_value = Some (RANK_VALUES r2)\<rparr> = lit ''Tie''
     \<longleftrightarrow> r1 = r2 \<and> s1 = s2"
proof -
  have "RANK_VALUES r1 = RANK_VALUES r2 \<and> suitOrder s1 = suitOrder s2 \<longleftrightarrow> r1 = r2 \<and> s1 = s2"
    by (simp add: RANK_VALUES_inj suitOrder_inj)
  then show ?thesis using assms unfolding cardWinner_table by (auto split: if_splits)
qed


lemma cardGame_fields:
  assumes "drawCard (deriveGameRandom env (JString masterSeed)
              (JString (lit ''card-p1-'' @ session_id session)) (JNumber (Num gameIndex))) = card1"
    and "drawCard (deriveGameRandom env (JString masterSeed)
              (JString (lit ''card-p2-'' @ session_id session)) (JNumber (Num gameIndex))) = card2"
  shows "r_player1Card (cardGame env masterSeed session player1 player2 gameIndex) = card1"
    and "r_player2Card (cardGame env masterSeed session player1 player2 gameIndex) = card2"
    and "r_winner (cardGame env masterSeed session player1 player2 gameIndex) =
           cardWinner player1 player2 card1 card2"
  using assms by (simp_all add: cardGame_def Let_def)

text \<open>
  Claim C6. In every game each player's card comes from that player's own derived
  value \<open>v\<close>: card index \<open>floor (v * 52)\<close>, suit at index \<open>div 13\<close>, rank at index
  \<open>mod 13\<close>. The higher rank value wins (ace 14 over king 13, whatever the suits); on
  equal ranks the higher suit wins, in the order spade, heart, diamond, club; the tie
  branch is reached exactly when rank and suit are both equal, and if neither player is
  called \<open>Tie\<close> the winner label is \<open>Tie\<close> in that case only.
\<close>

theorem high_card_rules:
  "let v1 = deriveGameRandom env (JString masterSeed)
              (JString (lit ''card-p1-'' @ session_id session)) (JNumber (Num gameIndex));
       v2 = deriveGameRandom env (JString masterSeed)
              (JString (lit ''card-p2-'' @ session_id session)) (JNumber (Num gameIndex));
       c1 = \<lfloor>v1 * 52\<rfloor>; c2 = \<lfloor>v2 * 52\<rfloor>;
       s1 = [Spade, Heart, Diamond, Club] ! nat (c1 div 13);
       s2 = [Spade, Heart, Diamond, Club] ! nat (c2 div 13);
       r1 = [R2, R3, R4, R5, R6, R7, R8, R9, R10, RJ, RQ, RK, RA] ! nat (c1 mod 13);
       r2 = [R2, R3, R4, R5, R6, R7, R8, R9, R10, RJ, RQ, RK, RA] ! nat (c2 mod 13);
       g = cardGame env masterSeed session player1 player2 gameIndex
   in r_player1Card g = \<lparr>card_suit = Some s1, card_rank = Some r1, card_value = Some (RANK_VALUES r1)\<rparr> \<and>
      r_player2Card g = \<lparr>card_suit = Some s2, card_rank = Some r2, card_value = Some (RANK_VALUES r2)\<rparr> \<and>
      r_winner g =
        (if RANK_VALUES r1 > RANK_VALUES r2 then player1
         else if RANK_VALUES r2 > RANK_VALUES r1 then player2
         else if suitOrder s1 > suitOrder s2 then player1
         else if suitOrder s2 > suitOrder s1 then player2
         else lit ''Tie'') \<and>
      ((RANK_VALUES r1 = RANK_VALUES r2 \<and> suitOrder s1 = suitOrder s2) = (r1 = r2 \<and> s1 = s2)) \<and>
      (r1 = r2 \<and> s1 = s2 \<longrightarrow> r_winner g = lit ''Tie'') \<and>
      (player1 \<noteq> lit ''Tie'' \<and> player2 \<noteq> lit ''Tie'' \<longrightarrow>
         (r_winner g = lit ''Tie'' \<longleftrightarrow> r1 = r2 \<and> s1 = s2)) \<and>
      RANK_VALUES RA = 14 \<and> RANK_VALUES RK = 13 \<and>
      suitOrder Spade > suitOrder Heart \<and> suitOrder Heart > suitOrder Diamond \<and>
      suitOrder Diamond > suitOrder Club"
proof -
  define v1 where "v1 = deriveGameRandom env (JString masterSeed)
              (JString (lit ''card-p1-'' @ session_id session)) (JNumber (Num gameIndex))"
  define v2 where "v2 = deriveGameRandom env (JString masterSeed)
              (JString (lit ''card-p2-'' @ session_id session)) (JNumber (Num gameIndex))"
  define s1 where "s1 = [Spade, Heart, Diamond, Club] ! nat (\<lfloor>v1 * 52\<rfloor> div 13)"
  define s2 where "s2 = [Spade, Heart, Diamond, Club] ! nat (\<lfloor>v2 * 52\<rfloor> div 13)"
  define r1 where
    "r1 = [R2, R3, R4, R5, R6, R7, R8, R9, R10, RJ, RQ, RK, RA] ! nat (\<lfloor>v1 * 52\<rfloor> mod 13)"
  define r2 where
    "r2 = [R2, R3, R4, R5, R6, R7, R8, R9, R10, RJ, RQ, RK, RA] ! nat (\<lfloor>v2 * 52\<rfloor> mod 13)"
  define g where "g = cardGame env masterSeed session player1 player2 gameIndex"
  have d1: "drawCard v1 =
      \<lparr>card_suit = Some s1, card_rank = Some r1, card_value = Some (RANK_VALUES r1)\<rparr>"
    unfolding s1_def r1_def v1_def by (rule derive_card)
  have d2: "drawCard v2 =
      \<lparr>card_suit = Some s2, card_rank = Some r2, card_value = Some (RANK_VALUES r2)\<rparr>"
    unfolding s2_def r2_def v2_def by (rule derive_card)
  note f = cardGame_fields [OF d1 [unfolded v1_def] d2 [unfolded v2_def], of player1 player2,
      folded g_def]
  have w: "r_winner g =
        (if RANK_VALUES r1 > RANK_VALUES r2 then player1
         else if RANK_VALUES r2 > RANK_VALUES r1 then player2
         else if suitOrder s1 > suitOrder s2 then player1
         else if suitOrder s2 > suitOrder s1 then player2
         else lit ''Tie'')"
    unfolding f(3) by (rule cardWinner_table)
  have t1: "r1 = r2 \<and> s1 = s2 \<longrightarrow> r_winner g = lit ''Tie''"
    unfolding w by simp
  have t2: "player1 \<noteq> lit ''Tie'' \<and> player2 \<noteq> lit ''Tie'' \<longrightarrow>
         (r_winner g = lit ''Tie'' \<longleftrightarrow> r1 = r2 \<and> s1 = s2)"
    unfolding f(3) using cardWinner_tie_iff [of player1 player2 s1 r1 s2 r2] by blast
  have inj: "(RANK_VALUES r1 = RANK_VALUES r2 \<and> suitOrder s1 = suitOrder s2) = (r1 = r2 \<and> s1 = s2)"
    by (simp add: RANK_VALUES_inj suitOrder_inj)
  have k: "RANK_VALUES RA = 14 \<and> RANK_VALUES RK = 13 \<and>
      suitOrder Spade > suitOrder Heart \<and> suitOrder Heart > suitOrder Diamond \<and>
      suitOrder Diamond > suitOrder Club"
    by simp
  have "r_player1Card g = \<lparr>card_suit = Some s1, card_rank = Some r1, card_value = Some (RANK_VALUES r1)\<rparr> \<and>
      r_player2Card g = \<lparr>card_suit = Some s2, card_rank = Some r2, card_value = Some (RANK_VALUES r2)\<rparr> \<and>
      r_winner g =
        (if RANK_VALUES r1 > RANK_VALUES r2 then player1
         else if RANK_VALUES r2 > RANK_VALUES r1 then player2
         else if suitOrder s1 > suitOrder s2 then player1
         else if suitOrder s2 > suitOrder s1 then player2
         else lit ''Tie'') \<and>
      ((RANK_VALUES r1 = RANK_VALUES r2 \<and> suitOrder s1 = suitOrder s2) = (r1 = r2 \<and> s1 = s2)) \<and>
      (r1 = r2 \<and> s1 = s2 \<longrightarrow> r_winner g = lit ''Tie'') \<and>
      (player1 \<noteq> lit ''Tie'' \<and> player2 \<noteq> lit ''Tie'' \<longrightarrow>
         (r_winner g = lit ''Tie'' \<longleftrightarrow> r1 = r2 \<and> s1 = s2)) \<and>
      RANK_VALUES RA = 14 \<and> RANK_VALUES RK = 13 \<and>
      suitOrder Spade > suitOrder Heart \<and> suitOrder Heart > suitOrder Diamond \<and>
      suitOrder Diamond > suitOrder Club"
    using f(1,2) w inj t1 t2 k by blast
  then show ?thesis
    unfolding Let_def g_def r1_def r2_def s1_def s2_def v1_def v2_def .
qed

theorem high_card_rules_witness:
  "lit ''A'' \<noteq> lit ''Tie'' \<and> lit ''B'' \<noteq> lit ''Tie'' \<and>
   r_winner (cardGame runtimeA (lit ''deadbeef00ff1122'')
               session4 (lit ''A'') (lit ''B'') 0) = lit ''Tie''"
proof -
  have e1: "\<lfloor>deriveGameRandom runtimeA (JString (lit ''deadbeef00ff1122''))
        (JString (lit ''card-p1-'' @ session_id session4))
        (JNumber (Num 0)) * 52\<rfloor> = 24"
    by code_simp
  have e2: "\<lfloor>deriveGameRandom runtimeA (JString (lit ''deadbeef00ff1122''))
        (JString (lit ''card-p2-'' @ session_id session4))
        (JNumber (Num 0)) * 52\<rfloor> = 24"
    by code_simp
  have l: "lit ''A'' \<noteq> lit ''Tie''" "lit ''B'' \<noteq> lit ''Tie''"
    by (simp_all add: lit_def)
  from high_card_rules [where env = runtimeA and masterSeed = "lit ''deadbeef00ff1122''"
      and session = "session4" and gameIndex = 0
      and ?player1.0 = "lit ''A''" and ?player2.0 = "lit ''B''"]
  show ?thesis unfolding Let_def e1 e2 using l by blast
qed

subsection \<open>Batches\<close>

lemma map_add_upto: "map (\<lambda>i. g (p + i)) [i..j] = map g [p + i..p + j]"
proof (induction i j rule: upto.induct)
  case (1 i j)
  show ?case
  proof (cases "i \<le> j")
    case True
    then show ?thesis
      using 1 by (simp add: upto_rec1 [of i j] upto_rec1 [of "p + i" "p + j"] add.assoc)
  next
    case False
    then show ?thesis by simp
  qed
qed

lemma upto_append: "i \<le> j \<Longrightarrow> j \<le> k + 1 \<Longrightarrow> [i..j - 1] @ [j..k] = [i..k]"
proof (cases "j \<le> k")
  case True
  assume "i \<le> j"
  then show ?thesis using True by (simp add: upto_split1 [of i j k])
next
  case False
  assume "j \<le> k + 1"
  then have "j = k + 1" using False by simp
  then show ?thesis by simp
qed

lemma drop_upto: "0 \<le> N \<Longrightarrow> drop (nat N) [i..m] = [i + N..m]"
proof (induction "nat N" arbitrary: N i)
  case 0
  then show ?case by simp
next
  case (Suc k)
  then have N: "k = nat (N - 1)" "0 \<le> N - 1" "nat N = Suc (nat (N - 1))" by simp_all
  show ?case
  proof (cases "i \<le> m")
    case True
    then show ?thesis
      using Suc.hyps(1) [OF N(1) N(2), of "i + 1"] N(3) by (simp add: upto_rec1 [of i m])
  next
    case False
    then show ?thesis using Suc.prems by simp
  qed
qed

text \<open>What \<open>n\<close> ticks produce, seen through a projection \<open>f\<close> of the results that does
  not depend on where a batch starts.\<close>

lemma ticks_results:
  fixes b count :: int
  assumes b: "0 < b"
    and pb: "\<And>p. p < count \<Longrightarrow>
               snd (processBatch p b) = p + min b (count - p) \<and>
               map f (fst (processBatch p b)) = map h [p..p + min b (count - p) - 1]"
  shows "map f (fst ((tick processBatch count b ^^ n) (done, p))) =
           map f done @ map h [p..min count (p + int n * b) - 1]"
proof (induction n arbitrary: "done" p)
  case 0
  then show ?case by simp
next
  case (Suc n)
  define m where "m = int n * b"
  have m: "0 \<le> m" using b by (simp add: m_def)
  have sn: "int (Suc n) * b = m + b" by (simp add: m_def algebra_simps)
  show ?case
  proof (cases "p < count")
    case False
    then have "tick processBatch count b (done, p) = (done, p)" by (simp add: tick_def)
    then show ?thesis using Suc.IH [of "done" p] False by (simp add: funpow_swap1)
  next
    case True
    let ?cb = "min b (count - p)"
    obtain rs where rs: "processBatch p b = (rs, p + ?cb)" "map f rs = map h [p..p + ?cb - 1]"
      using pb [OF True] by (cases "processBatch p b") auto
    have t: "tick processBatch count b (done, p) = (done @ rs, p + ?cb)"
      using True rs(1) by (simp add: tick_def)
    have e: "min count (p + ?cb + m) = min count (p + (m + b))"
      using True m b by (auto simp: min_def)
    have "p \<le> p + ?cb" "p + ?cb \<le> min count (p + (m + b)) - 1 + 1"
      using True m b by (auto simp: min_def)
    then have "[p..p + ?cb - 1] @ [p + ?cb..min count (p + (m + b)) - 1] =
          [p..min count (p + (m + b)) - 1]"
      by (rule upto_append)
    then have "map h [p..p + ?cb - 1] @ map h [p + ?cb..min count (p + (m + b)) - 1] =
          map h [p..min count (p + (m + b)) - 1]"
      by (simp flip: map_append)
    then show ?thesis
      using Suc.IH [of "done @ rs" "p + ?cb"] t rs(2) e
      unfolding sn m_def [symmetric] by (simp add: funpow_swap1)
  qed
qed

lemma ticks_complete:
  fixes b count :: int
  assumes b: "0 < b"
    and pb: "\<And>p. p < count \<Longrightarrow>
               snd (processBatch p b) = p + min b (count - p) \<and>
               map f (fst (processBatch p b)) = map h [p..p + min b (count - p) - 1]"
    and n: "count - p \<le> int n"
  shows "map f (fst ((tick processBatch count b ^^ n) ([], p))) = map h [p..count - 1]"
proof -
  have "int n * 1 \<le> int n * b" using b by (intro mult_left_mono) simp_all
  then have "count \<le> p + int n * b" using n by simp
  then have "min count (p + int n * b) = count" by simp
  then show ?thesis
    using ticks_results [where processBatch = processBatch and f = f and h = h and n = n
        and p = p and count = count and b = b and ?done = "[]", OF b pb]
    by simp
qed

lemma rpsProcessBatch_shape:
  assumes "0 < b" "p < session_count session"
  shows "snd (rpsProcessBatch env ms session p1 p2 p b) = p + min b (session_count session - p) \<and>
         map (\<lambda>r. r) (fst (rpsProcessBatch env ms session p1 p2 p b)) =
           map (rpsGame env ms session p1 p2) [p..p + min b (session_count session - p) - 1]"
proof -
  have "map (\<lambda>i. rpsGame env ms session p1 p2 (p + i)) [0..c - 1] =
        map (rpsGame env ms session p1 p2) [p..p + c - 1]" for c
    using map_add_upto [of "rpsGame env ms session p1 p2" p 0 "c - 1"] by (simp add: algebra_simps)
  then show ?thesis using assms by (simp add: rpsProcessBatch_def Let_def)
qed

lemma rpsRun_complete:
  assumes "0 < b" "session_count session - p \<le> int n"
  shows "rpsRun env ms session p1 p2 b n p =
         map (rpsGame env ms session p1 p2) [p..session_count session - 1]"
  using ticks_complete [where processBatch = "rpsProcessBatch env ms session p1 p2"
      and f = "\<lambda>r. r" and h = "rpsGame env ms session p1 p2" and b = b
      and count = "session_count session" and n = n and p = p,
      OF assms(1) rpsProcessBatch_shape [OF assms(1)] assms(2)]
  by (simp add: rpsRun_def)

lemma cardProcessBatch_shape:
  assumes "0 < b" "p < session_count session"
  shows "snd (cardProcessBatch env ms session p1 p2 p b) = p + min b (session_count session - p) \<and>
         map (\<lambda>r. r) (fst (cardProcessBatch env ms session p1 p2 p b)) =
           map (cardGame env ms session p1 p2) [p..p + min b (session_count session - p) - 1]"
proof -
  have "map (\<lambda>i. cardGame env ms session p1 p2 (p + i)) [0..c - 1] =
        map (cardGame env ms session p1 p2) [p..p + c - 1]" for c
    using map_add_upto [of "cardGame env ms session p1 p2" p 0 "c - 1"] by (simp add: algebra_simps)
  then show ?thesis using assms by (simp add: cardProcessBatch_def Let_def)
qed

lemma cardRun_complete:
  assumes "0 < b" "session_count session - p \<le> int n"
  shows "cardRun env ms session p1 p2 b n p =
         map (cardGame env ms session p1 p2) [p..session_count session - 1]"
  using ticks_complete [where processBatch = "cardProcessBatch env ms session p1 p2"
      and f = "\<lambda>r. r" and h = "cardGame env ms session p1 p2" and b = b
      and count = "session_count session" and n = n and p = p,
      OF assms(1) cardProcessBatch_shape [OF assms(1)] assms(2)]
  by (simp add: cardRun_def)

lemma flipProcessBatch_shape:
  assumes "0 < b" "p < session_count session"
  shows "snd (flipProcessBatch env ms session p1 p2 p b) = p + min b (session_count session - p) \<and>
         map r_result (fst (flipProcessBatch env ms session p1 p2 p b)) =
           map (flipFace env ms session) [p..p + min b (session_count session - p) - 1]"
proof -
  have "map (\<lambda>i. flipFace env ms session (p + i)) [0..c - 1] =
        map (flipFace env ms session) [p..p + c - 1]" for c
    using map_add_upto [of "flipFace env ms session" p 0 "c - 1"] by (simp add: algebra_simps)
  then show ?thesis
    using assms by (simp add: flipProcessBatch_def flipGame_def Let_def comp_def)
qed

lemma flipRun_faces:
  assumes "0 < b" "session_count session - p \<le> int n"
  shows "map r_result (flipRun env ms session p1 p2 b n p) =
         map (flipFace env ms session) [p..session_count session - 1]"
  using ticks_complete [where processBatch = "flipProcessBatch env ms session p1 p2"
      and f = r_result and h = "flipFace env ms session" and b = b
      and count = "session_count session" and n = n and p = p,
      OF assms(1) flipProcessBatch_shape [OF assms(1)] assms(2)]
  by (simp add: flipRun_def)

lemma flipProcessBatch_winner:
  "map r_winner (fst (flipProcessBatch env ms session p1 p2 p b)) =
   map (\<lambda>r. if r_result r = Heads then headsPlayerAt env ms session p1 p2 p
             else tailsPlayerOf p1 p2 (headsPlayerAt env ms session p1 p2 p))
       (fst (flipProcessBatch env ms session p1 p2 p b))"
  by (simp add: flipProcessBatch_def flipGame_def Let_def comp_def)

lemma rpsGame_clock:
  "ms \<noteq> [] \<Longrightarrow> rpsGame (env\<lparr>dateNow := t\<rparr>) ms session p1 p2 = rpsGame env ms session p1 p2"
  by (rule ext) (simp add: rpsGame_def deriveGameRandom_clock)

lemma cardGame_clock:
  "ms \<noteq> [] \<Longrightarrow> cardGame (env\<lparr>dateNow := t\<rparr>) ms session p1 p2 = cardGame env ms session p1 p2"
  by (rule ext) (simp add: cardGame_def deriveGameRandom_clock)

lemma flipFace_clock:
  "ms \<noteq> [] \<Longrightarrow> flipFace (env\<lparr>dateNow := t\<rparr>) ms session = flipFace env ms session"
  by (rule ext) (simp add: flipFace_def deriveGameRandom_clock)

lemma drop_map_upto: "0 \<le> N \<Longrightarrow> drop (nat N) (map g [0..m]) = map g [N..m]"
  by (simp add: drop_map drop_upto)

text \<open>
  Claim C5, as amended. Let the master seed be non-empty. The rock-paper-scissors
  result, the high-card result and the coin-flip face of game \<open>k\<close> are functions of the
  master seed, the session id, \<open>k\<close> and (for the results) the two player labels: neither
  the time of the call nor the size of the session enters. Whatever the positive batch
  sizes, once enough ticks have run, the rock-paper-scissors and high-card results from
  index 0 are these per-index results in index order, and a run resumed at index \<open>N\<close>,
  at another time and with another batch size, produces exactly the results of the
  whole run with the first \<open>N\<close> dropped. For the coin flip the same holds for the face of
  every game; its winner is the owner of that face under the side assignment derived at
  the index where the game's batch starts, so it depends on how the indices are grouped
  into batches.
\<close>

theorem batch_replay:
  assumes "masterSeed \<noteq> []" "0 < b" "0 < b'" "0 \<le> N"
    and "session_count session \<le> int n" "session_count session - N \<le> int n'"
  shows "(session_id session' = session_id session \<longrightarrow>
            rpsGame (env\<lparr>dateNow := t\<rparr>) masterSeed session' player1 player2 k =
              rpsGame env masterSeed session player1 player2 k \<and>
            cardGame (env\<lparr>dateNow := t\<rparr>) masterSeed session' player1 player2 k =
              cardGame env masterSeed session player1 player2 k \<and>
            flipFace (env\<lparr>dateNow := t\<rparr>) masterSeed session' k =
              flipFace env masterSeed session k) \<and>
         rpsRun env masterSeed session player1 player2 b n 0 =
           map (rpsGame env masterSeed session player1 player2) [0..session_count session - 1] \<and>
         rpsRun (env\<lparr>dateNow := t\<rparr>) masterSeed session player1 player2 b' n' N =
           drop (nat N) (rpsRun env masterSeed session player1 player2 b n 0) \<and>
         cardRun env masterSeed session player1 player2 b n 0 =
           map (cardGame env masterSeed session player1 player2) [0..session_count session - 1] \<and>
         cardRun (env\<lparr>dateNow := t\<rparr>) masterSeed session player1 player2 b' n' N =
           drop (nat N) (cardRun env masterSeed session player1 player2 b n 0) \<and>
         map r_result (flipRun (env\<lparr>dateNow := t\<rparr>) masterSeed session player1 player2 b' n' N) =
           drop (nat N) (map r_result (flipRun env masterSeed session player1 player2 b n 0)) \<and>
         map r_winner (fst (flipProcessBatch env masterSeed session player1 player2 N b)) =
           map (\<lambda>r. if r_result r = Heads
                     then headsPlayerAt env masterSeed session player1 player2 N
                     else tailsPlayerOf player1 player2
                            (headsPlayerAt env masterSeed session player1 player2 N))
               (fst (flipProcessBatch env masterSeed session player1 player2 N b))"
proof -
  have n0: "session_count session - 0 \<le> int n" using assms(5) by simp
  let ?env' = "env\<lparr>dateNow := t\<rparr>"
  have g: "session_id session' = session_id session \<longrightarrow>
            rpsGame ?env' masterSeed session' player1 player2 k =
              rpsGame env masterSeed session player1 player2 k \<and>
            cardGame ?env' masterSeed session' player1 player2 k =
              cardGame env masterSeed session player1 player2 k \<and>
            flipFace ?env' masterSeed session' k = flipFace env masterSeed session k"
    using assms(1) by (simp add: rpsGame_def cardGame_def flipFace_def deriveGameRandom_clock)
  note r0 = rpsRun_complete [OF assms(2) n0, of env masterSeed player1 player2]
  note r1 = rpsRun_complete [OF assms(3) assms(6), of ?env' masterSeed player1 player2]
  note c0 = cardRun_complete [OF assms(2) n0, of env masterSeed player1 player2]
  note c1 = cardRun_complete [OF assms(3) assms(6), of ?env' masterSeed player1 player2]
  note f0 = flipRun_faces [OF assms(2) n0, of env masterSeed player1 player2]
  note f1 = flipRun_faces [OF assms(3) assms(6), of ?env' masterSeed player1 player2]
  have "rpsRun env masterSeed session player1 player2 b n 0 =
           map (rpsGame env masterSeed session player1 player2) [0..session_count session - 1] \<and>
         rpsRun ?env' masterSeed session player1 player2 b' n' N =
           drop (nat N) (rpsRun env masterSeed session player1 player2 b n 0) \<and>
         cardRun env masterSeed session player1 player2 b n 0 =
           map (cardGame env masterSeed session player1 player2) [0..session_count session - 1] \<and>
         cardRun ?env' masterSeed session player1 player2 b' n' N =
           drop (nat N) (cardRun env masterSeed session player1 player2 b n 0) \<and>
         map r_result (flipRun ?env' masterSeed session player1 player2 b' n' N) =
           drop (nat N) (map r_result (flipRun env masterSeed session player1 player2 b n 0))"
    using assms(1,4) r0 r1 c0 c1 f0 f1
    by (simp add: rpsGame_clock cardGame_clock flipFace_clock drop_map_upto)
  with g flipProcessBatch_winner [of env masterSeed session player1 player2 N b]
  show ?thesis by blast
qed

theorem batch_replay_witness:
  "rpsGame (runtimeA\<lparr>dateNow := 1762077600001\<rparr>) (lit ''00ff'') session4 (lit ''A'') (lit ''B'') 1 =
     rpsGame runtimeA (lit ''00ff'') session2 (lit ''A'') (lit ''B'') 1 \<and>
   rpsRun runtimeA (lit ''00ff'') session2 (lit ''A'') (lit ''B'') 1 2 0 =
     map (rpsGame runtimeA (lit ''00ff'') session2 (lit ''A'') (lit ''B''))
         [0..session_count session2 - 1] \<and>
   rpsRun (runtimeA\<lparr>dateNow := 1762077600001\<rparr>) (lit ''00ff'') session2 (lit ''A'') (lit ''B'') 2 1 1 =
     drop (nat 1) (rpsRun runtimeA (lit ''00ff'') session2 (lit ''A'') (lit ''B'') 1 2 0) \<and>
   cardRun (runtimeA\<lparr>dateNow := 1762077600001\<rparr>) (lit ''00ff'') session2 (lit ''A'') (lit ''B'') 2 1 1 =
     drop (nat 1) (cardRun runtimeA (lit ''00ff'') session2 (lit ''A'') (lit ''B'') 1 2 0) \<and>
   map r_result
     (flipRun (runtimeA\<lparr>dateNow := 1762077600001\<rparr>) (lit ''00ff'') session2 (lit ''A'') (lit ''B'') 2 1 1) =
     drop (nat 1)
       (map r_result (flipRun runtimeA (lit ''00ff'') session2 (lit ''A'') (lit ''B'') 1 2 0))"
proof -
  have h: "lit ''00ff'' \<noteq> []" "(0::int) < 1" "(0::int) < 2" "(0::int) \<le> 1"
    "session_count session2 \<le> int 2" "session_count session2 - 1 \<le> int 1"
    by (simp_all add: lit_def)
  have i: "session_id session4 = session_id session2" by simp
  from batch_replay [OF h, where session' = session4 and env = runtimeA and t = 1762077600001
      and ?player1.0 = "lit ''A''" and ?player2.0 = "lit ''B''" and k = 1] i
  show ?thesis by blast
qed

text \<open>
  Claim C5 as stated fails for the coin flip. With the all-zero seed, session \<open>s1\<close> and
  three games, game 2 shows heads; resolved in one batch from index 0 heads belongs to
  player A, resolved in a batch that starts at index 2 heads belongs to player B. It
  also fails for an empty master seed, which brings in the clock: game 1 of a
  rock-paper-scissors session is paper against rock at one time and rock against rock
  286 days later.
\<close>

lemma flip_assign_0:
  "headsPlayerAt runtimeA zeroSeed session3 (lit ''A'') (lit ''B'') 0 = lit ''A''"
  by code_simp

lemma flip_assign_2:
  "headsPlayerAt runtimeA zeroSeed session3 (lit ''A'') (lit ''B'') 2 = lit ''B''"
  by code_simp

lemma flip_face_2: "flipFace runtimeA zeroSeed session3 2 = Heads"
  by code_simp

lemma rps_empty_seed_1:
  "r_player1Move (rpsGame runtimeA [] session2 (lit ''A'') (lit ''B'') 1) = Some Paper"
  by code_simp

lemma rps_empty_seed_2:
  "r_player1Move (rpsGame runtimeC [] session2 (lit ''A'') (lit ''B'') 1) = Some Rock"
  by code_simp

theorem batch_replay_counterexample:
  "flipRun runtimeA zeroSeed session3 (lit ''A'') (lit ''B'') 1 1 2 \<noteq>
   drop 2 (flipRun runtimeA zeroSeed session3 (lit ''A'') (lit ''B'') 3 1 0) \<and>
   rpsRun runtimeC [] session2 (lit ''A'') (lit ''B'') 1 1 1 \<noteq>
   drop 1 (rpsRun runtimeA [] session2 (lit ''A'') (lit ''B'') 2 1 0)"
proof -
  have l: "flipRun runtimeA zeroSeed session3 (lit ''A'') (lit ''B'') 1 1 2 =
           [\<lparr>r_gameIndex = 2, r_winner = lit ''B'', r_result = Heads\<rparr>]"
    by (simp add: flipRun_def tick_def flipProcessBatch_def flipGame_def Let_def
          flip_assign_2 flip_face_2)
  have r: "drop 2 (flipRun runtimeA zeroSeed session3 (lit ''A'') (lit ''B'') 3 1 0) =
           [\<lparr>r_gameIndex = 2, r_winner = lit ''A'', r_result = Heads\<rparr>]"
    by (simp add: flipRun_def tick_def flipProcessBatch_def flipGame_def Let_def
          flip_assign_0 flip_face_2 upto_rec1)
  have a: "rpsRun runtimeC [] session2 (lit ''A'') (lit ''B'') 1 1 1 =
           [rpsGame runtimeC [] session2 (lit ''A'') (lit ''B'') 1]"
    by (simp add: rpsRun_def tick_def rpsProcessBatch_def)
  have b: "drop 1 (rpsRun runtimeA [] session2 (lit ''A'') (lit ''B'') 2 1 0) =
           [rpsGame runtimeA [] session2 (lit ''A'') (lit ''B'') 1]"
    by (simp add: rpsRun_def tick_def rpsProcessBatch_def upto_rec1)
  have "rpsGame runtimeC [] session2 (lit ''A'') (lit ''B'') 1 \<noteq>
        rpsGame runtimeA [] session2 (lit ''A'') (lit ''B'') 1"
    using rps_empty_seed_1 rps_empty_seed_2 by auto
  then show ?thesis unfolding l r a b by (simp add: lit_def)
qed

end
